theory Spec2Isabelle
  imports Main
begin

section \<open>Rental sessions of mnk\_backend: data model\<close>

text \<open>
  The embedding follows \<^verbatim>\<open>src/mnk_backend/routes/mnk_session.py\<close>. Identifiers are
  natural numbers, timestamps are integers (seconds on the wall clock). The primary-key
  column \<^verbatim>\<open>id\<close> of a table is written \<open>s_id\<close> (sessions) and \<open>i_id\<close> (items),
  since \<open>id\<close> is HOL's identity function; the columns of a strike carry the prefix
  \<open>k_\<close> and those of an audit record the prefix \<open>a_\<close>.
\<close>

datatype RentStatus = RESERVED | ACTIVE | CANCELED | OVERDUE | RETURNED | DISMISSED

text \<open>The exceptions the routes raise; \<open>ValidationError\<close> is the failure of
  \<^verbatim>\<open>mnkSessionGet.model_validate\<close> on a value that is no session.\<close>

datatype error = NoneAvailable | ObjectNotFound | InactiveSession | ValidationError

record mnkSession =
  s_id :: nat
  user_id :: nat
  item_id :: nat
  status :: RentStatus
  reservation_ts :: int
  start_ts :: "int option"
  end_ts :: "int option"
  actual_return_ts :: "int option"
  admin_open_id :: "nat option"
  admin_close_id :: "nat option"

record Item =
  i_id :: nat
  type_id :: nat
  is_available :: bool

record StrikePost =
  k_user_id :: nat
  k_admin_id :: nat
  k_reason :: string
  k_session_id :: nat

datatype detail = DStatus RentStatus | DItem nat

record Action =
  a_user_id :: nat
  a_admin_id :: "nat option"
  a_session_id :: nat
  a_action_type :: string
  a_details :: "(string \<times> detail) list"

text \<open>
  The database: the rows of each table in query order, the sequence that numbers new
  sessions, the audit log written by \<^verbatim>\<open>ActionLogger.log_event\<close> and the expiry checks
  handed to \<^verbatim>\<open>background_tasks.add_task\<close> (the session id each one will check).
\<close>

record db =
  sessions :: "mnkSession list"
  items :: "Item list"
  strikes :: "StrikePost list"
  events :: "Action list"
  tasks :: "nat list"
  next_session_id :: nat

section \<open>The entity store\<close>

definition get_session :: "db \<Rightarrow> nat \<Rightarrow> mnkSession option" where
  \<comment> \<open>Modelled from the spec: \<^verbatim>\<open>mnkSession.get\<close> (models/db.py is not among the sources) is
      the store's get by identity; the routes test its result with \<^verbatim>\<open>if not session\<close>, so
      an unknown id yields \<open>None\<close>.\<close>
  "get_session st sid = find (\<lambda>s. s_id s = sid) (sessions st)"

definition update_session :: "nat \<Rightarrow> (mnkSession \<Rightarrow> mnkSession) \<Rightarrow> db \<Rightarrow> db" where
  \<comment> \<open>Modelled from the spec: \<^verbatim>\<open>mnkSession.update(id=..., **fields)\<close> sets the given columns
      on the row with that id; \<open>f\<close> is the assignment of the columns.\<close>
  "update_session sid f st =
     st\<lparr>sessions := map (\<lambda>s. if s_id s = sid then f s else s) (sessions st)\<rparr>"

definition update_item :: "nat \<Rightarrow> (Item \<Rightarrow> Item) \<Rightarrow> db \<Rightarrow> db" where
  \<comment> \<open>Modelled from the spec: \<^verbatim>\<open>Item.update(id=..., **fields)\<close>, as for sessions.\<close>
  "update_item iid f st =
     st\<lparr>items := map (\<lambda>i. if i_id i = iid then f i else i) (items st)\<rparr>"

definition create_session :: "nat \<Rightarrow> nat \<Rightarrow> int \<Rightarrow> RentStatus \<Rightarrow> db \<Rightarrow> mnkSession \<times> db" where
  \<comment> \<open>Modelled from the spec: \<^verbatim>\<open>mnkSession.create\<close> inserts a row whose id comes from the
      table's sequence and whose other columns are null.\<close>
  "create_session uid iid now stat st =
     (let session = \<lparr>s_id = next_session_id st, user_id = uid, item_id = iid, status = stat,
                      reservation_ts = now, start_ts = None, end_ts = None,
                      actual_return_ts = None, admin_open_id = None, admin_close_id = None\<rparr>
      in (session, st\<lparr>sessions := sessions st @ [session],
                      next_session_id := Suc (next_session_id st)\<rparr>))"

definition log_event :: "nat \<Rightarrow> nat option \<Rightarrow> nat \<Rightarrow> string \<Rightarrow> (string \<times> detail) list \<Rightarrow> db \<Rightarrow> db" where
  \<comment> \<open>Modelled from the spec: the audit sink appends one record.\<close>
  "log_event uid aid sid tag details st =
     st\<lparr>events := events st @
        [\<lparr>a_user_id = uid, a_admin_id = aid, a_session_id = sid,
          a_action_type = tag, a_details = details\<rparr>]\<rparr>"

definition create_strike :: "StrikePost \<Rightarrow> db \<Rightarrow> db" where
  \<comment> \<open>Modelled from the spec: the Strike Issuer (routes/strike.py is not among the sources)
      is the pure creation of one Strike record.\<close>
  "create_strike strike_info st = st\<lparr>strikes := strikes st @ [strike_info]\<rparr>"

definition add_task :: "nat \<Rightarrow> db \<Rightarrow> db" where
  "add_task sid st = st\<lparr>tasks := tasks st @ [sid]\<rparr>"

definition model_validate :: "mnkSession option \<Rightarrow> error + mnkSession" where
  \<comment> \<open>Modelled from the spec: \<^verbatim>\<open>mnkSessionGet.model_validate\<close> (schemas/models.py is not
      among the sources) builds the response from a session and rejects \<open>None\<close>.\<close>
  "model_validate obj = (case obj of None \<Rightarrow> Inl ValidationError | Some s \<Rightarrow> Inr s)"

section \<open>The routes\<close>

text \<open>
  \<^verbatim>\<open>check_session_expiration\<close> after its sleep of ten minutes. The model runs the
  body, and the body of each route, as one step on the store; what two of them do when
  their reads and writes interleave is outside the model.
\<close>

definition check_session_expiration :: "nat \<Rightarrow> db \<Rightarrow> db" where
  "check_session_expiration session_id st =
     (case find (\<lambda>s. s_id s = session_id) (sessions st) of
        None \<Rightarrow> st
      | Some session \<Rightarrow>
          if status session = RESERVED then
            log_event (user_id session) None (s_id session) ''EXPIRE_SESSION''
              [(''status'', DStatus CANCELED)]
              (update_item (item_id session) (\<lambda>i. i\<lparr>is_available := True\<rparr>)
                (update_session session_id (\<lambda>s. s\<lparr>status := CANCELED\<rparr>) st))
          else st)"

text \<open>\<open>uid\<close> is the id of the authenticated caller, \<open>now\<close> the reading of the clock.\<close>

definition create_mnk_session :: "nat \<Rightarrow> nat \<Rightarrow> int \<Rightarrow> db \<Rightarrow> (error + mnkSession) \<times> db" where
  "create_mnk_session item_type_id uid now st =
     (case filter (\<lambda>i. type_id i = item_type_id \<and> is_available i = True) (items st) of
        [] \<Rightarrow> (Inl NoneAvailable, st)
      | first # _ \<Rightarrow>
          (case create_session uid (i_id first) now RESERVED st of
             (session, st1) \<Rightarrow>
               (Inr session,
                log_event uid None (s_id session) ''CREATE_SESSION''
                  [(''item_id'', DItem (item_id session)), (''status'', DStatus RESERVED)]
                  (add_task (s_id session)
                    (update_item (i_id first) (\<lambda>i. i\<lparr>is_available := False\<rparr>) st1)))))"

definition start_mnk_session :: "nat \<Rightarrow> nat \<Rightarrow> int \<Rightarrow> db \<Rightarrow> (error + mnkSession) \<times> db" where
  "start_mnk_session session_id uid now st =
     (case get_session st session_id of
        None \<Rightarrow> (Inl ObjectNotFound, st)
      | Some session \<Rightarrow>
          (let upd = (\<lambda>s. s\<lparr>status := ACTIVE, start_ts := Some now, admin_open_id := Some uid\<rparr>)
           in (Inr (upd session),
               log_event (user_id session) (Some uid) (s_id session) ''START_SESSION''
                 [(''status'', DStatus ACTIVE)]
                 (update_session session_id upd st))))"

text \<open>
  The route reads the clock twice: \<open>now_end\<close> is the reading used for \<^verbatim>\<open>end_ts\<close>,
  \<open>now_ret\<close> the later one used for \<^verbatim>\<open>actual_return_ts\<close>. A \<^verbatim>\<open>datetime\<close> is always
  truthy, so \<^verbatim>\<open>not rent_session.end_ts\<close> holds exactly for \<open>None\<close>.
\<close>

definition accept_end_mnk_session ::
  "nat \<Rightarrow> bool \<Rightarrow> string \<Rightarrow> nat \<Rightarrow> int \<Rightarrow> int \<Rightarrow> db \<Rightarrow> (error + mnkSession) \<times> db" where
  "accept_end_mnk_session session_id with_strike strike_reason uid now_end now_ret st =
     (case get_session st session_id of
        None \<Rightarrow> (Inl ObjectNotFound, st)
      | Some rent_session \<Rightarrow>
          if status rent_session \<noteq> ACTIVE then (Inl InactiveSession, st)
          else
            (let upd = (\<lambda>s. s\<lparr>status := RETURNED,
                              end_ts := (case end_ts rent_session of
                                           None \<Rightarrow> Some now_end | Some e \<Rightarrow> Some e),
                              actual_return_ts := Some now_ret,
                              admin_close_id := Some uid\<rparr>);
                 ended_session = upd rent_session;
                 st1 = log_event (user_id rent_session) (Some uid) (s_id rent_session)
                         ''RETURN_SESSION'' [(''status'', DStatus RETURNED)]
                         (update_session session_id upd st)
             in (Inr ended_session,
                 if with_strike then
                   create_strike \<lparr>k_user_id = user_id ended_session, k_admin_id = uid,
                                  k_reason = strike_reason, k_session_id = s_id rent_session\<rparr> st1
                 else st1)))"

definition get_mnk_session :: "nat \<Rightarrow> db \<Rightarrow> error + mnkSession" where
  "get_mnk_session session_id st = model_validate (get_session st session_id)"

definition get_mnk_sessions ::
  "bool \<Rightarrow> bool \<Rightarrow> bool \<Rightarrow> bool \<Rightarrow> bool \<Rightarrow> bool \<Rightarrow> db \<Rightarrow> mnkSession list" where
  "get_mnk_sessions is_reserved is_canceled is_dismissed is_overdue is_returned is_active st =
     (let to_show = [];
          to_show = (if is_reserved then to_show @ [RESERVED] else to_show);
          to_show = (if is_canceled then to_show @ [CANCELED] else to_show);
          to_show = (if is_dismissed then to_show @ [DISMISSED] else to_show);
          to_show = (if is_overdue then to_show @ [OVERDUE] else to_show);
          to_show = (if is_returned then to_show @ [RETURNED] else to_show);
          to_show = (if is_active then to_show @ [ACTIVE] else to_show)
      in filter (\<lambda>s. status s \<in> set to_show) (sessions st))"

section \<open>The availability invariant\<close>

text \<open>RESERVED, ACTIVE and OVERDUE are the states in which a session still holds its item.\<close>

definition non_terminal :: "RentStatus \<Rightarrow> bool" where
  "non_terminal x = (x = RESERVED \<or> x = ACTIVE \<or> x = OVERDUE)"

definition held :: "db \<Rightarrow> nat \<Rightarrow> bool" where
  "held st iid = (\<exists>s \<in> set (sessions st). item_id s = iid \<and> non_terminal (status s))"

definition availability_inv :: "db \<Rightarrow> bool" where
  "availability_inv st = (\<forall>i \<in> set (items st). (\<not> is_available i) = held st (i_id i))"

section \<open>Scenario stores\<close>

text \<open>
  One item, number 7 of type 1, free, and no session yet; then user 1 reserves it at
  time 100, admin 9 hands it over at 200 and takes it back at 300 with a strike.
\<close>

definition db0 :: db where
  "db0 = \<lparr>sessions = [], items = [\<lparr>i_id = 7, type_id = 1, is_available = True\<rparr>],
          strikes = [], events = [], tasks = [], next_session_id = 1\<rparr>"

definition db1 :: db where
  "db1 = snd (create_mnk_session 1 1 100 db0)"

definition db2 :: db where
  "db2 = snd (start_mnk_session 1 9 200 db1)"

definition db3 :: db where
  "db3 = snd (accept_end_mnk_session 1 True ''damaged'' 9 300 301 db2)"

definition sess_reserved :: mnkSession where
  "sess_reserved = \<lparr>s_id = 1, user_id = 1, item_id = 7, status = RESERVED,
     reservation_ts = 100, start_ts = None, end_ts = None, actual_return_ts = None,
     admin_open_id = None, admin_close_id = None\<rparr>"

definition sess_active :: mnkSession where
  "sess_active = sess_reserved\<lparr>status := ACTIVE, start_ts := Some 200, admin_open_id := Some 9\<rparr>"

definition sess_returned :: mnkSession where
  "sess_returned = sess_active\<lparr>status := RETURNED, end_ts := Some 300,
     actual_return_ts := Some 301, admin_close_id := Some 9\<rparr>"

text \<open>The sweep outside these routes has marked the running session overdue.\<close>

definition db_overdue :: db where
  "db_overdue = update_session 1 (\<lambda>s. s\<lparr>status := OVERDUE\<rparr>) db2"

text \<open>The reservation of \<open>db1\<close> after its expiry check has run.\<close>

definition db_expired :: db where
  "db_expired = check_session_expiration 1 db1"

text \<open>Admin 9 starts session 1 after that expiry.\<close>

definition db_restarted :: db where
  "db_restarted = snd (start_mnk_session 1 9 200 db_expired)"

text \<open>
  Or else user 2 reserves the released item 7 at 150 (session 2), and only then admin 9
  starts the expired session 1.
\<close>

definition db_rebooked :: db where
  "db_rebooked = snd (create_mnk_session 1 2 150 db_expired)"

definition db_double :: db where
  "db_double = snd (start_mnk_session 1 9 200 db_rebooked)"

section \<open>Facts about the store\<close>

lemma find_map_upd:
  "(\<And>x. s_id (f x) = s_id x) \<Longrightarrow>
   find (\<lambda>s. s_id s = k) (map (\<lambda>s. if s_id s = sid then f s else s) xs) =
     (if k = sid then map_option f (find (\<lambda>s. s_id s = k) xs) else find (\<lambda>s. s_id s = k) xs)"
  by (induction xs) auto

lemma get_session_update:
  "(\<And>x. s_id (f x) = s_id x) \<Longrightarrow>
   get_session (update_session sid f st) k =
     (if k = sid then map_option f (get_session st k) else get_session st k)"
  unfolding get_session_def update_session_def
  by (simp add: find_map_upd)

lemma find_SomeD: "find P xs = Some x \<Longrightarrow> P x \<and> x \<in> set xs"
  by (induction xs) (auto split: if_splits)

lemma get_session_id: "get_session st sid = Some s \<Longrightarrow> s_id s = sid"
  unfolding get_session_def by (drule find_SomeD) simp

lemma get_session_log [simp]: "get_session (log_event u a i t d st) k = get_session st k"
  by (simp add: get_session_def log_event_def)

lemma get_session_strike [simp]: "get_session (create_strike x st) k = get_session st k"
  by (simp add: get_session_def create_strike_def)

lemma get_session_update_item [simp]: "get_session (update_item i f st) k = get_session st k"
  by (simp add: get_session_def update_item_def)

lemma items_log [simp]: "items (log_event u a i t d st) = items st"
  by (simp add: log_event_def)

lemma items_strike [simp]: "items (create_strike x st) = items st"
  by (simp add: create_strike_def)

lemma items_update_session [simp]: "items (update_session i f st) = items st"
  by (simp add: update_session_def)

lemma strikes_log [simp]: "strikes (log_event u a i t d st) = strikes st"
  by (simp add: log_event_def)

lemma strikes_update_session [simp]: "strikes (update_session i f st) = strikes st"
  by (simp add: update_session_def)

lemma sessions_log [simp]: "sessions (log_event u a i t d st) = sessions st"
  by (simp add: log_event_def)

lemma sessions_strike [simp]: "sessions (create_strike x st) = sessions st"
  by (simp add: create_strike_def)

lemma sessions_update_item [simp]: "sessions (update_item i f st) = sessions st"
  by (simp add: update_item_def)

section \<open>The scenario, evaluated\<close>

lemma db1_eval:
  "sessions db1 = [sess_reserved] \<and>
   items db1 = [\<lparr>i_id = 7, type_id = 1, is_available = False\<rparr>] \<and>
   strikes db1 = [] \<and> tasks db1 = [1] \<and> next_session_id db1 = 2"
  by (simp add: db1_def db0_def sess_reserved_def create_mnk_session_def create_session_def
        update_item_def log_event_def add_task_def Let_def)

lemma db2_eval:
  "sessions db2 = [sess_active] \<and>
   items db2 = [\<lparr>i_id = 7, type_id = 1, is_available = False\<rparr>] \<and>
   strikes db2 = [] \<and> next_session_id db2 = 2"
  by (simp add: db2_def start_mnk_session_def get_session_def update_session_def log_event_def
        db1_eval sess_active_def sess_reserved_def Let_def)

lemma db3_eval:
  "sessions db3 = [sess_returned] \<and>
   items db3 = [\<lparr>i_id = 7, type_id = 1, is_available = False\<rparr>] \<and>
   strikes db3 = [\<lparr>k_user_id = 1, k_admin_id = 9, k_reason = ''damaged'', k_session_id = 1\<rparr>] \<and>
   next_session_id db3 = 2"
  by (simp add: db3_def accept_end_mnk_session_def get_session_def update_session_def
        log_event_def create_strike_def db2_eval sess_returned_def sess_active_def
        sess_reserved_def Let_def)

lemma db_overdue_eval:
  "sessions db_overdue = [sess_active\<lparr>status := OVERDUE\<rparr>] \<and>
   items db_overdue = [\<lparr>i_id = 7, type_id = 1, is_available = False\<rparr>]"
  by (simp add: db_overdue_def update_session_def db2_eval sess_active_def sess_reserved_def)

lemma db_expired_eval:
  "sessions db_expired = [sess_reserved\<lparr>status := CANCELED\<rparr>] \<and>
   items db_expired = [\<lparr>i_id = 7, type_id = 1, is_available = True\<rparr>] \<and>
   next_session_id db_expired = 2"
  by (simp add: db_expired_def check_session_expiration_def update_session_def update_item_def
        log_event_def db1_eval sess_reserved_def)

lemma db_restarted_eval:
  "sessions db_restarted = [sess_active] \<and>
   items db_restarted = [\<lparr>i_id = 7, type_id = 1, is_available = True\<rparr>]"
  by (simp add: db_restarted_def start_mnk_session_def get_session_def update_session_def
        log_event_def db_expired_eval sess_active_def sess_reserved_def Let_def)

lemma db_rebooked_eval:
  "sessions db_rebooked =
     [sess_reserved\<lparr>status := CANCELED\<rparr>,
      \<lparr>s_id = 2, user_id = 2, item_id = 7, status = RESERVED, reservation_ts = 150,
        start_ts = None, end_ts = None, actual_return_ts = None, admin_open_id = None,
        admin_close_id = None\<rparr>] \<and>
   items db_rebooked = [\<lparr>i_id = 7, type_id = 1, is_available = False\<rparr>]"
  by (simp add: db_rebooked_def create_mnk_session_def create_session_def update_item_def
        log_event_def add_task_def db_expired_eval sess_reserved_def Let_def)

lemma db_double_eval:
  "sessions db_double =
     [sess_active,
      \<lparr>s_id = 2, user_id = 2, item_id = 7, status = RESERVED, reservation_ts = 150,
        start_ts = None, end_ts = None, actual_return_ts = None, admin_open_id = None,
        admin_close_id = None\<rparr>] \<and>
   items db_double = [\<lparr>i_id = 7, type_id = 1, is_available = False\<rparr>]"
  by (simp add: db_double_def start_mnk_session_def get_session_def update_session_def
        log_event_def db_rebooked_eval sess_active_def sess_reserved_def Let_def)

text \<open>
  The invariant of the data model on the scenario: it holds up to the hand-over and is
  lost by the return, and by a start after the expiry.
\<close>

lemma availability_inv_scenario:
  "availability_inv db0 \<and> availability_inv db1 \<and> availability_inv db2 \<and>
   availability_inv db_expired \<and> \<not> availability_inv db3 \<and> \<not> availability_inv db_restarted"
  by (simp add: availability_inv_def held_def non_terminal_def db0_def db1_eval db2_eval
        db3_eval db_expired_eval db_restarted_eval sess_returned_def sess_active_def
        sess_reserved_def)

lemma scenario_start: "start_mnk_session 1 9 200 db1 = (Inr sess_active, db2)"
  by (simp add: db2_def start_mnk_session_def get_session_def db1_eval sess_active_def
        sess_reserved_def Let_def)

lemma scenario_return:
  "accept_end_mnk_session 1 True ''damaged'' 9 300 301 db2 = (Inr sess_returned, db3)"
  by (simp add: db3_def accept_end_mnk_session_def get_session_def db2_eval sess_returned_def
        sess_active_def sess_reserved_def Let_def)

section \<open>The claims\<close>

text \<open>
  Claim C5. When no item of the requested type is available, Create fails with
  NoAvailableItem (\<open>NoneAvailable\<close> in the source) and returns the store as it was: no
  session is created and no item is changed.
\<close>

theorem create_none_available:
  assumes "\<forall>i \<in> set (items st). type_id i = t \<longrightarrow> \<not> is_available i"
  shows "create_mnk_session t uid now st = (Inl NoneAvailable, st)"
proof -
  have "filter (\<lambda>i. type_id i = t \<and> is_available i = True) (items st) = []"
    using assms by (auto simp: filter_empty_conv)
  then show ?thesis by (simp add: create_mnk_session_def)
qed

theorem create_none_available_witness:
  "map is_available (items db1) = [False] \<and>
   create_mnk_session 1 2 150 db1 = (Inl NoneAvailable, db1)"
  using create_none_available [of db1 1 2 150] by (simp add: db1_eval)

text \<open>
  Claim C9. The list-by-status query with all six flags false returns the empty list;
  with flags set it returns exactly the sessions whose status is among the selected ones,
  in table order.
\<close>

theorem list_by_status:
  "get_mnk_sessions False False False False False False st = [] \<and>
   get_mnk_sessions r c d ov rt a st =
     filter (\<lambda>s. case status s of RESERVED \<Rightarrow> r | CANCELED \<Rightarrow> c | DISMISSED \<Rightarrow> d
                  | OVERDUE \<Rightarrow> ov | RETURNED \<Rightarrow> rt | ACTIVE \<Rightarrow> a) (sessions st)"
proof
  show "get_mnk_sessions False False False False False False st = []"
    by (simp add: get_mnk_sessions_def)
  show "get_mnk_sessions r c d ov rt a st =
     filter (\<lambda>s. case status s of RESERVED \<Rightarrow> r | CANCELED \<Rightarrow> c | DISMISSED \<Rightarrow> d
                  | OVERDUE \<Rightarrow> ov | RETURNED \<Rightarrow> rt | ACTIVE \<Rightarrow> a) (sessions st)"
    unfolding get_mnk_sessions_def Let_def
    by (rule filter_cong[OF refl]) (auto split: RentStatus.splits)
qed

text \<open>
  Claim C10. For an id with no stored session the get-by-id route makes no existence
  check: it hands \<open>None\<close> to the response validation, which fails with a validation error
  and not with the typed not-found error (\<open>ObjectNotFound\<close>).
\<close>

theorem get_missing:
  "get_session st sid = None \<Longrightarrow>
   get_mnk_session sid st = Inl ValidationError \<and> get_mnk_session sid st \<noteq> Inl ObjectNotFound"
  by (simp add: get_mnk_session_def model_validate_def)

theorem get_missing_witness:
  "get_session db0 5 = None \<and> get_mnk_session 5 db0 = Inl ValidationError \<and> get_mnk_session 5 db0 \<noteq> Inl ObjectNotFound"
  using get_missing[of db0 5] by (simp add: get_session_def db0_def)

text \<open>
  Claim C6. On every successful Return an \<open>end_ts\<close> already set is kept, an unset one becomes
  the reading of the clock, and \<open>actual_return_ts\<close> is set to the reading of the clock in
  either case; the stored session is the returned one.
\<close>

theorem return_timestamps:
  assumes "accept_end_mnk_session sid ws r uid now_end now_ret st = (Inr s', st')"
    and "get_session st sid = Some s"
  shows "(case end_ts s of Some e \<Rightarrow> end_ts s' = Some e | None \<Rightarrow> end_ts s' = Some now_end) \<and>
         actual_return_ts s' = Some now_ret \<and> status s' = RETURNED \<and>
         get_session st' sid = Some s'"
  using assms
  by (auto simp: accept_end_mnk_session_def Let_def get_session_update
           split: option.splits if_splits)

theorem return_timestamps_witness:
  "accept_end_mnk_session 1 True ''damaged'' 9 300 301 db2 = (Inr sess_returned, db3) \<and>
   get_session db2 1 = Some sess_active \<and> end_ts sess_active = None \<and>
   end_ts sess_returned = Some 300 \<and> actual_return_ts sess_returned = Some 301 \<and>
   get_session db3 1 = Some sess_returned"
proof -
  have g: "get_session db2 1 = Some sess_active"
    by (simp add: get_session_def db2_eval sess_active_def sess_reserved_def)
  have e: "end_ts sess_active = None"
    by (simp add: sess_active_def sess_reserved_def)
  from return_timestamps [OF scenario_return g] e scenario_return g show ?thesis by simp
qed

text \<open>
  Claim C8. A successful Return with \<open>with_strike\<close> set appends exactly one strike, for the
  session's user, the closing admin and this session, to the store in which the session is
  already RETURNED; with \<open>with_strike\<close> unset the strikes are unchanged.
\<close>

theorem return_strike:
  assumes "accept_end_mnk_session sid ws r uid now_end now_ret st = (Inr s', st')"
    and "get_session st sid = Some s"
  shows "strikes st' = strikes st @
           (if ws then [\<lparr>k_user_id = user_id s, k_admin_id = uid, k_reason = r, k_session_id = sid\<rparr>]
            else []) \<and>
         (\<exists>st1. get_session st1 sid = Some s' \<and> status s' = RETURNED \<and> strikes st1 = strikes st \<and>
            st' = (if ws then create_strike \<lparr>k_user_id = user_id s, k_admin_id = uid,
                                            k_reason = r, k_session_id = sid\<rparr> st1 else st1))"
proof -
  have sid: "s_id s = sid" using assms(2) by (rule get_session_id)
  have act: "status s = ACTIVE"
    using assms by (auto simp: accept_end_mnk_session_def split: if_splits)
  define upd where "upd = (\<lambda>x::mnkSession. x\<lparr>status := RETURNED,
       end_ts := (case end_ts s of None \<Rightarrow> Some now_end | Some e \<Rightarrow> Some e),
       actual_return_ts := Some now_ret, admin_close_id := Some uid\<rparr>)"
  define st1 where "st1 = log_event (user_id s) (Some uid) sid ''RETURN_SESSION''
       [(''status'', DStatus RETURNED)] (update_session sid upd st)"
  have s': "s' = upd s"
    using assms act by (auto simp: accept_end_mnk_session_def Let_def upd_def)
  have st': "st' = (if ws then create_strike \<lparr>k_user_id = user_id s, k_admin_id = uid,
                                            k_reason = r, k_session_id = sid\<rparr> st1 else st1)"
    using assms act sid by (auto simp: accept_end_mnk_session_def Let_def upd_def st1_def)
  have g: "get_session st1 sid = Some s'"
    using assms(2) by (simp add: st1_def s' get_session_update upd_def)
  have k: "strikes st1 = strikes st" by (simp add: st1_def)
  have r: "status s' = RETURNED" by (simp add: s' upd_def)
  show ?thesis
  proof
    show "strikes st' = strikes st @
           (if ws then [\<lparr>k_user_id = user_id s, k_admin_id = uid, k_reason = r, k_session_id = sid\<rparr>]
            else [])"
      by (simp add: st' k create_strike_def)
    show "\<exists>st1. get_session st1 sid = Some s' \<and> status s' = RETURNED \<and> strikes st1 = strikes st \<and>
            st' = (if ws then create_strike \<lparr>k_user_id = user_id s, k_admin_id = uid,
                                            k_reason = r, k_session_id = sid\<rparr> st1 else st1)"
      using g k r st' by blast
  qed
qed

theorem return_strike_witness:
  "accept_end_mnk_session 1 True ''damaged'' 9 300 301 db2 = (Inr sess_returned, db3) \<and>
   get_session db2 1 = Some sess_active \<and>
   strikes db3 = strikes db2 @
     [\<lparr>k_user_id = 1, k_admin_id = 9, k_reason = ''damaged'', k_session_id = 1\<rparr>]"
proof -
  have g: "get_session db2 1 = Some sess_active"
    by (simp add: get_session_def db2_eval sess_active_def sess_reserved_def)
  have u: "user_id sess_active = 1"
    by (simp add: sess_active_def sess_reserved_def)
  from return_strike [OF scenario_return g] u scenario_return g show ?thesis by simp
qed

text \<open>
  Claim C7. The expiry check of a session that is still RESERVED sets it to CANCELED and
  sets \<open>is_available\<close> of its item to true; for a session that is absent or has left
  RESERVED the check returns the store unchanged.
\<close>

theorem expire_if_unclaimed:
  "(get_session st sid = Some s \<and> status s = RESERVED \<longrightarrow>
      get_session (check_session_expiration sid st) sid = Some (s\<lparr>status := CANCELED\<rparr>) \<and>
      items (check_session_expiration sid st) =
        map (\<lambda>i. if i_id i = item_id s then i\<lparr>is_available := True\<rparr> else i) (items st) \<and>
      (\<forall>i \<in> set (items (check_session_expiration sid st)). i_id i = item_id s \<longrightarrow> is_available i)) \<and>
   ((\<forall>x. get_session st sid = Some x \<longrightarrow> status x \<noteq> RESERVED) \<longrightarrow>
      check_session_expiration sid st = st)"
proof (intro conjI impI)
  assume a: "get_session st sid = Some s \<and> status s = RESERVED"
  then have f: "find (\<lambda>x. s_id x = sid) (sessions st) = Some s" by (simp add: get_session_def)
  have e: "check_session_expiration sid st =
      log_event (user_id s) None (s_id s) ''EXPIRE_SESSION'' [(''status'', DStatus CANCELED)]
        (update_item (item_id s) (\<lambda>i. i\<lparr>is_available := True\<rparr>)
          (update_session sid (\<lambda>x. x\<lparr>status := CANCELED\<rparr>) st))"
    using a f by (simp add: check_session_expiration_def)
  show "get_session (check_session_expiration sid st) sid = Some (s\<lparr>status := CANCELED\<rparr>)"
    using a by (simp add: e get_session_update)
  show i: "items (check_session_expiration sid st) =
        map (\<lambda>i. if i_id i = item_id s then i\<lparr>is_available := True\<rparr> else i) (items st)"
    by (simp add: e update_item_def update_session_def)
  show "\<forall>i \<in> set (items (check_session_expiration sid st)). i_id i = item_id s \<longrightarrow> is_available i"
    unfolding i by auto
next
  assume "\<forall>x. get_session st sid = Some x \<longrightarrow> status x \<noteq> RESERVED"
  then show "check_session_expiration sid st = st"
    by (auto simp: check_session_expiration_def get_session_def split: option.splits)
qed

theorem expire_if_unclaimed_witness:
  "get_session db1 1 = Some sess_reserved \<and> status sess_reserved = RESERVED \<and>
   get_session (check_session_expiration 1 db1) 1 = Some (sess_reserved\<lparr>status := CANCELED\<rparr>) \<and>
   items (check_session_expiration 1 db1) = [\<lparr>i_id = 7, type_id = 1, is_available = True\<rparr>] \<and>
   get_session db2 1 = Some sess_active \<and> status sess_active = ACTIVE \<and>
   check_session_expiration 1 db2 = db2"
proof -
  have g1: "get_session db1 1 = Some sess_reserved"
    by (simp add: get_session_def db1_eval sess_reserved_def)
  have r: "status sess_reserved = RESERVED" "item_id sess_reserved = 7"
    by (simp_all add: sess_reserved_def)
  have g3: "get_session db2 1 = Some sess_active" "status sess_active = ACTIVE"
    by (simp_all add: get_session_def db2_eval sess_active_def sess_reserved_def)
  then have g2: "\<forall>x. get_session db2 1 = Some x \<longrightarrow> status x \<noteq> RESERVED"
    by simp
  from expire_if_unclaimed [of db1 1 sess_reserved] g1 r
  have a: "get_session (check_session_expiration 1 db1) 1 = Some (sess_reserved\<lparr>status := CANCELED\<rparr>)"
    and b: "items (check_session_expiration 1 db1) = [\<lparr>i_id = 7, type_id = 1, is_available = True\<rparr>]"
    by (simp_all add: db1_eval)
  from expire_if_unclaimed [of db2 1 sess_active] g2
  have c: "check_session_expiration 1 db2 = db2" by blast
  from g1 r(1) a b g3 c show ?thesis by blast
qed

text \<open>
  Claim C3, as stated, fails: on an existing session whose status is OVERDUE, Return fails
  with InactiveSession and changes nothing.
\<close>

theorem return_overdue_counterexample:
  "get_session db_overdue 1 = Some (sess_active\<lparr>status := OVERDUE\<rparr>) \<and>
   accept_end_mnk_session 1 False [] 9 300 301 db_overdue = (Inl InactiveSession, db_overdue)"
  by (simp add: accept_end_mnk_session_def get_session_def db_overdue_eval sess_active_def
        sess_reserved_def)

text \<open>
  Claim C3, amended. Return succeeds exactly when the session exists and its status is
  ACTIVE; it fails with InactiveSession exactly when the session exists with any other
  status (OVERDUE included), and with the not-found error exactly when there is no session.
\<close>

theorem return_iff:
  "(\<exists>s'. fst (accept_end_mnk_session sid ws r uid t1 t2 st) = Inr s') =
     (\<exists>s. get_session st sid = Some s \<and> status s = ACTIVE) \<and>
   (fst (accept_end_mnk_session sid ws r uid t1 t2 st) = Inl InactiveSession) =
     (\<exists>s. get_session st sid = Some s \<and> status s \<noteq> ACTIVE) \<and>
   (fst (accept_end_mnk_session sid ws r uid t1 t2 st) = Inl ObjectNotFound) =
     (get_session st sid = None)"
  by (auto simp: accept_end_mnk_session_def Let_def split: option.splits)

theorem return_iff_witness:
  "fst (accept_end_mnk_session 1 True ''damaged'' 9 300 301 db2) = Inr sess_returned \<and>
   (\<exists>s. get_session db2 1 = Some s \<and> status s = ACTIVE) \<and>
   fst (accept_end_mnk_session 1 False [] 9 300 301 db_overdue) = Inl InactiveSession \<and>
   (\<exists>s. get_session db_overdue 1 = Some s \<and> status s \<noteq> ACTIVE)"
proof -
  have a: "fst (accept_end_mnk_session 1 True ''damaged'' 9 300 301 db2) = Inr sess_returned"
    using scenario_return by simp
  then have "\<exists>s'. fst (accept_end_mnk_session 1 True ''damaged'' 9 300 301 db2) = Inr s'"
    by blast
  with return_iff [of 1 True "''damaged''" 9 300 301 db2]
  have b: "\<exists>s. get_session db2 1 = Some s \<and> status s = ACTIVE" by blast
  have "\<exists>s. get_session db_overdue 1 = Some s \<and> status s \<noteq> ACTIVE"
    by (simp add: get_session_def db_overdue_eval sess_active_def sess_reserved_def)
  with return_iff [of 1 False "[]" 9 300 301 db_overdue]
  have c: "fst (accept_end_mnk_session 1 False [] 9 300 301 db_overdue) = Inl InactiveSession"
    and d: "\<exists>s. get_session db_overdue 1 = Some s \<and> status s \<noteq> ACTIVE"
    by blast+
  from a b c d show ?thesis by blast
qed

text \<open>
  Claim C1. An item is unavailable if and only if a session in RESERVED, ACTIVE or OVERDUE
  holds it, at every store reached through Create, Start, Return and ExpireIfUnclaimed;
  the item of a session that reaches RETURNED becomes available again. The routes break
  it. After Create, Start and Return the only session is RETURNED and holds item 7, no
  session in a non-terminal state holds the item, yet it is still unavailable, and the
  next Create for its type is refused. After Create, the expiry check and Start, the
  session is ACTIVE and holds item 7, yet the item is available.
\<close>

theorem availability_broken:
  "map status (sessions db3) = [RETURNED] \<and> map item_id (sessions db3) = [7] \<and>
   map is_available (items db3) = [False] \<and> \<not> held db3 7 \<and>
   create_mnk_session 1 2 400 db3 = (Inl NoneAvailable, db3) \<and>
   map status (sessions db_restarted) = [ACTIVE] \<and>
   map item_id (sessions db_restarted) = [7] \<and>
   map is_available (items db_restarted) = [True] \<and> held db_restarted 7"
  by (simp add: held_def non_terminal_def create_mnk_session_def db3_eval db_restarted_eval
        sess_returned_def sess_active_def sess_reserved_def)

text \<open>
  Claim C2. The status of a session moves only along the edges of the state diagram, and
  Start on a session that is not RESERVED fails and leaves it unchanged. The Start route
  breaks it: it reads the session and writes ACTIVE without looking at the status. On the
  RETURNED session of \<open>db3\<close> Start succeeds and the session is ACTIVE again. On the
  CANCELED session 1 of \<open>db_rebooked\<close>, whose item 7 is by then reserved by session 2,
  Start succeeds too, and sessions 1 (ACTIVE) and 2 (RESERVED) both hold item 7.
\<close>

theorem start_unguarded:
  "get_session db3 1 = Some sess_returned \<and> status sess_returned = RETURNED \<and>
   fst (start_mnk_session 1 9 400 db3) =
     Inr (sess_returned\<lparr>status := ACTIVE, start_ts := Some 400, admin_open_id := Some 9\<rparr>) \<and>
   map status (sessions (snd (start_mnk_session 1 9 400 db3))) = [ACTIVE] \<and>
   map status (sessions db_rebooked) = [CANCELED, RESERVED] \<and>
   map item_id (sessions db_rebooked) = [7, 7] \<and>
   fst (start_mnk_session 1 9 200 db_rebooked) = Inr sess_active \<and>
   map status (sessions db_double) = [ACTIVE, RESERVED] \<and>
   map item_id (sessions db_double) = [7, 7]"
  by (simp add: start_mnk_session_def get_session_def update_session_def log_event_def
        db3_eval db_rebooked_eval db_double_eval sess_returned_def sess_active_def
        sess_reserved_def Let_def)

text \<open>
  Claim C4. Of Start and ExpireIfUnclaimed on a RESERVED session exactly one takes effect,
  and a Start that loses is rejected. The routes break it already when the two run one
  after the other: the expiry check cancels session 1 and releases item 7, and the Start
  that follows is not rejected; it returns the session as ACTIVE and the store holds an
  ACTIVE session on an available item. Both a release and a start have taken effect.
\<close>

theorem expire_then_start:
  "map status (sessions db1) = [RESERVED] \<and> map is_available (items db1) = [False] \<and>
   map status (sessions db_expired) = [CANCELED] \<and>
   map is_available (items db_expired) = [True] \<and>
   start_mnk_session 1 9 200 db_expired = (Inr sess_active, db_restarted) \<and>
   map status (sessions db_restarted) = [ACTIVE] \<and>
   map is_available (items db_restarted) = [True]"
  by (simp add: db_restarted_def start_mnk_session_def get_session_def update_session_def
        log_event_def db1_eval db_expired_eval sess_active_def sess_reserved_def Let_def)

end
